theory Spec2Isabelle
  imports Complex_Main
begin

section \<open>Data model of the editing session (FlowChart.tsx)\<close>

text \<open>
  The component keeps its session in React state cells: \<open>nodes\<close>, \<open>edges\<close>,
  \<open>selectedNode\<close>, \<open>selectedEdge\<close>, \<open>availableColumns\<close>, \<open>undoStack\<close> and
  \<open>redoStack\<close>. Every handler runs to completion on one event; the values it reads
  from its closure are the cells as they were when the event arrived, and its
  functional updaters are applied in the order they were queued. A handler is
  therefore a function from the session before the event to the session after it.

  Coordinates are JavaScript numbers; they are modelled as \<open>real\<close>, so rounding of
  floating point arithmetic is not part of the model. Optional object properties are
  \<open>option\<close> values.
\<close>

record position =
  pos_x :: real
  pos_y :: real

record node_payload =
  label :: string
  isHeader :: bool
  column :: "string option"
  color :: "string option"
  attrs :: "(string \<times> string) list"

record node =
  node_id :: string
  node_type :: "string option"
  node_position :: position
  node_data :: node_payload
  draggable :: "bool option"
  style_backgroundColor :: "string option"

record edge =
  edge_id :: string
  source :: string
  target :: string
  sourceHandle :: "string option"
  targetHandle :: "string option"
  animated :: bool
  edge_label :: "string option"

record flow_column =
  col_id :: string
  col_title :: string
  col_color :: string

text \<open>An entry of the undo or redo stack: the object \<open>{ nodes, edges }\<close>.\<close>

record snapshot =
  snap_nodes :: "node list"
  snap_edges :: "edge list"

record session =
  nodes :: "node list"
  edges :: "edge list"
  selectedNode :: "node option"
  selectedEdge :: "edge option"
  availableColumns :: "flow_column list"
  undoStack :: "snapshot list"
  redoStack :: "snapshot list"

text \<open>The argument of \<open>handleCreateNode\<close>: a node without \<open>id\<close> and \<open>position\<close>;
  the handler reads its \<open>type\<close> and \<open>data\<close> only.\<close>

record new_node =
  nn_type :: "string option"
  nn_data :: node_payload

text \<open>The \<open>Connection\<close> handed to \<open>onConnect\<close>, and the object the handler builds
  from it for the library's \<open>addEdge\<close>.\<close>

record connection =
  conn_source :: "string option"
  conn_target :: "string option"
  conn_sourceHandle :: "string option"
  conn_targetHandle :: "string option"

record marker =
  marker_type :: string
  marker_width :: nat
  marker_height :: nat
  marker_color :: string

record edge_params =
  ep_connection :: connection
  ep_animated :: bool
  ep_strokeWidth :: nat
  ep_stroke :: string
  ep_data_label :: string
  ep_markerEnd :: marker

text \<open>The change records the canvas library sends to \<open>onNodesChange\<close> and
  \<open>onEdgesChange\<close>; the handlers look at the \<open>type\<close> tag only.\<close>

datatype node_change =
    NodeDimensions string
  | NodePosition string "position option" bool
  | NodeSelect string bool
  | NodeRemove string
  | NodeAdd node
  | NodeReset node

fun node_change_type :: "node_change \<Rightarrow> string" where
  "node_change_type (NodeDimensions _) = ''dimensions''"
| "node_change_type (NodePosition _ _ _) = ''position''"
| "node_change_type (NodeSelect _ _) = ''select''"
| "node_change_type (NodeRemove _) = ''remove''"
| "node_change_type (NodeAdd _) = ''add''"
| "node_change_type (NodeReset _) = ''reset''"

datatype edge_change =
    EdgeSelect string bool
  | EdgeRemove string
  | EdgeAdd edge
  | EdgeReset edge

fun edge_change_type :: "edge_change \<Rightarrow> string" where
  "edge_change_type (EdgeSelect _ _) = ''select''"
| "edge_change_type (EdgeRemove _) = ''remove''"
| "edge_change_type (EdgeAdd _) = ''add''"
| "edge_change_type (EdgeReset _) = ''reset''"

section \<open>History\<close>

text \<open>
  \<open>JSON.parse(JSON.stringify(v))\<close> builds a fresh object graph with the contents of
  \<open>v\<close>. The values of the model are immutable and JSON-representable, so the copy is
  the value itself.
\<close>

definition deep_copy :: "'a \<Rightarrow> 'a" where
  "deep_copy v = v"

definition saveCurrentState :: "session \<Rightarrow> session" where
  "saveCurrentState s =
     s\<lparr>undoStack := undoStack s @
          [\<lparr>snap_nodes = deep_copy (nodes s), snap_edges = deep_copy (edges s)\<rparr>],
       redoStack := []\<rparr>"

definition handleUndo :: "session \<Rightarrow> session" where
  "handleUndo s =
     (if length (undoStack s) = 0 then s
      else
        let currentState = \<lparr>snap_nodes = deep_copy (nodes s), snap_edges = deep_copy (edges s)\<rparr>;
            previousState = undoStack s ! (length (undoStack s) - 1)
        in s\<lparr>redoStack := redoStack s @ [currentState],
             undoStack := butlast (undoStack s),
             nodes := snap_nodes previousState,
             edges := snap_edges previousState\<rparr>)"

definition handleRedo :: "session \<Rightarrow> session" where
  "handleRedo s =
     (if length (redoStack s) = 0 then s
      else
        let currentState = \<lparr>snap_nodes = deep_copy (nodes s), snap_edges = deep_copy (edges s)\<rparr>;
            nextState = redoStack s ! (length (redoStack s) - 1)
        in s\<lparr>undoStack := undoStack s @ [currentState],
             redoStack := butlast (redoStack s),
             nodes := snap_nodes nextState,
             edges := snap_edges nextState\<rparr>)"

section \<open>Handlers of the canvas events\<close>

text \<open>
  \<open>applyNodeChanges\<close>, \<open>applyEdgeChanges\<close> and \<open>addEdge\<close> belong to the canvas
  library; the handlers take them as parameters.
\<close>

definition onNodesChange ::
  "(node_change list \<Rightarrow> node list \<Rightarrow> node list) \<Rightarrow> node_change list \<Rightarrow> session \<Rightarrow> session" where
  "onNodesChange applyNodeChanges changes s =
     (let nonPositionChanges =
            filter (\<lambda>change. node_change_type change \<noteq> ''position''
                             \<and> node_change_type change \<noteq> ''select'') changes;
          s1 = (if length nonPositionChanges > 0 then saveCurrentState s else s)
      in s1\<lparr>nodes := applyNodeChanges changes (nodes s1)\<rparr>)"

definition onEdgesChange ::
  "(edge_change list \<Rightarrow> edge list \<Rightarrow> edge list) \<Rightarrow> edge_change list \<Rightarrow> session \<Rightarrow> session" where
  "onEdgesChange applyEdgeChanges changes s =
     (let nonSelectChanges = filter (\<lambda>change. edge_change_type change \<noteq> ''select'') changes;
          s1 = (if length nonSelectChanges > 0 then saveCurrentState s else s)
      in s1\<lparr>edges := applyEdgeChanges changes (edges s1)\<rparr>)"

definition onConnect ::
  "(edge_params \<Rightarrow> edge list \<Rightarrow> edge list) \<Rightarrow> connection \<Rightarrow> session \<Rightarrow> session" where
  "onConnect addEdge params s =
     (let s1 = saveCurrentState s
      in s1\<lparr>edges := addEdge
              \<lparr>ep_connection = params,
               ep_animated = True,
               ep_strokeWidth = 2,
               ep_stroke = ''#555'',
               ep_data_label = ''Hubungan'',
               ep_markerEnd = \<lparr>marker_type = ''arrowclosed'', marker_width = 20,
                               marker_height = 20, marker_color = ''#555''\<rparr>\<rparr>
              (edges s1)\<rparr>)"

definition onNodeClick :: "node \<Rightarrow> session \<Rightarrow> session" where
  "onNodeClick n s = s\<lparr>selectedNode := Some n, selectedEdge := None\<rparr>"

definition onEdgeClick :: "edge \<Rightarrow> session \<Rightarrow> session" where
  "onEdgeClick e s = s\<lparr>selectedEdge := Some e, selectedNode := None\<rparr>"

definition onPaneClick :: "session \<Rightarrow> session" where
  "onPaneClick s = s\<lparr>selectedNode := None, selectedEdge := None\<rparr>"

definition onNodeDragStop :: "session \<Rightarrow> session" where
  "onNodeDragStop s = saveCurrentState s"

section \<open>Creating nodes and columns\<close>

text \<open>\<open>Array.prototype.findIndex\<close>: the first index whose element satisfies the
  predicate, \<open>-1\<close> when there is none.\<close>

fun findIndex_from :: "('a \<Rightarrow> bool) \<Rightarrow> 'a list \<Rightarrow> int \<Rightarrow> int" where
  "findIndex_from p [] i = - 1"
| "findIndex_from p (c # cs) i = (if p c then i else findIndex_from p cs (i + 1))"

definition findIndex :: "('a \<Rightarrow> bool) \<Rightarrow> 'a list \<Rightarrow> int" where
  "findIndex p cs = findIndex_from p cs 0"

text \<open>The decimal digits of a number, as a template literal prints an integer.\<close>

definition digit_char :: "nat \<Rightarrow> char" where
  "digit_char d = ''0123456789'' ! d"

fun string_of_nat :: "nat \<Rightarrow> string" where
  "string_of_nat n =
     (if n < 10 then [digit_char n]
      else string_of_nat (n div 10) @ [digit_char (n mod 10)])"

declare string_of_nat.simps [simp del]

text \<open>
  \<open>handleCreateNode\<close> reads the clock (\<open>Date.now()\<close>, milliseconds); the reading is
  the argument \<open>now\<close>. \<open>Math.max\<close> is applied to the \<open>y\<close> of \<open>sameColumnNodes\<close> only
  when that list is not empty.
\<close>

definition handleCreateNode :: "new_node \<Rightarrow> nat \<Rightarrow> session \<Rightarrow> session" where
  "handleCreateNode nodeData now s =
     (let s1 = saveCurrentState s;
          sameColumnNodes =
            filter (\<lambda>n. column (node_data n) = column (nn_data nodeData)
                        \<and> \<not> isHeader (node_data n)) (nodes s);
          y = (case map (\<lambda>n. pos_y (node_position n)) sameColumnNodes of
                 [] \<Rightarrow> 100
               | v # vs \<Rightarrow> fold max vs v + 120);
          columnIndex =
            findIndex (\<lambda>col. Some (col_id col) = column (nn_data nodeData)) (availableColumns s);
          nodeWidth = 180;
          gap = 80;
          x = real_of_int columnIndex * (200 + gap) + (200 - nodeWidth) / 2;
          newNode = \<lparr>node_id = ''node-'' @ string_of_nat now,
                     node_type = nn_type nodeData,
                     node_position = \<lparr>pos_x = x, pos_y = y\<rparr>,
                     node_data = nn_data nodeData,
                     draggable = None,
                     style_backgroundColor = None\<rparr>
      in s1\<lparr>nodes := nodes s1 @ [newNode]\<rparr>)"

definition addColumn :: "flow_column \<Rightarrow> session \<Rightarrow> session" where
  "addColumn columnData s =
     (let s1 = saveCurrentState s;
          s2 = s1\<lparr>availableColumns := availableColumns s1 @ [columnData]\<rparr>;
          columnIndex = length (availableColumns s);
          columnWidth = 200;
          gap = 80;
          nodeWidth = 180;
          x = real columnIndex * (columnWidth + gap) + (columnWidth - nodeWidth) / 2;
          headerNode = \<lparr>node_id = ''header-'' @ col_id columnData,
                        node_type = Some ''customNode'',
                        node_position = \<lparr>pos_x = x, pos_y = 10\<rparr>,
                        node_data = \<lparr>label = col_title columnData,
                                      isHeader = True,
                                      column = Some (col_id columnData),
                                      color = Some (col_color columnData),
                                      attrs = []\<rparr>,
                        draggable = Some False,
                        style_backgroundColor = Some (col_color columnData)\<rparr>
      in s2\<lparr>nodes := nodes s2 @ [headerNode]\<rparr>)"

section \<open>Updating and deleting nodes\<close>

definition updateNode :: "string \<Rightarrow> node_payload \<Rightarrow> session \<Rightarrow> session" where
  "updateNode nodeId d s =
     (let s1 = saveCurrentState s
      in s1\<lparr>nodes := map (\<lambda>n. if node_id n = nodeId then n\<lparr>node_data := d\<rparr> else n) (nodes s1)\<rparr>)"

definition deleteNode :: "string \<Rightarrow> session \<Rightarrow> session" where
  "deleteNode nodeId s =
     (let s1 = saveCurrentState s;
          s2 = s1\<lparr>nodes := filter (\<lambda>n. node_id n \<noteq> nodeId) (nodes s1)\<rparr>
      in s2\<lparr>edges := filter (\<lambda>e. source e \<noteq> nodeId \<and> target e \<noteq> nodeId) (edges s2)\<rparr>)"

section \<open>The session at start and the events it receives\<close>

text \<open>
  The component starts from \<open>initialNodes\<close>, \<open>initialEdges\<close> and \<open>columns\<close> of the
  data module, with nothing selected and both history stacks empty.
\<close>

definition initial_session :: "node list \<Rightarrow> edge list \<Rightarrow> flow_column list \<Rightarrow> session" where
  "initial_session initialNodes initialEdges columns =
     \<lparr>nodes = initialNodes, edges = initialEdges, selectedNode = None, selectedEdge = None,
      availableColumns = columns, undoStack = [], redoStack = []\<rparr>"

text \<open>
  The structural mutations: the handlers that call \<open>saveCurrentState\<close> and then change
  \<open>nodes\<close>, \<open>edges\<close> or \<open>availableColumns\<close>.
\<close>

datatype mutation =
    CreateNode new_node nat
  | DeleteNode string
  | UpdateNode string node_payload
  | Connect connection
  | AddColumn flow_column

fun mutate :: "(edge_params \<Rightarrow> edge list \<Rightarrow> edge list) \<Rightarrow> mutation \<Rightarrow> session \<Rightarrow> session" where
  "mutate addEdge (CreateNode nodeData now) s = handleCreateNode nodeData now s"
| "mutate addEdge (DeleteNode nodeId) s = deleteNode nodeId s"
| "mutate addEdge (UpdateNode nodeId d) s = updateNode nodeId d s"
| "mutate addEdge (Connect params) s = onConnect addEdge params s"
| "mutate addEdge (AddColumn columnData) s = addColumn columnData s"

text \<open>The three functions of the canvas library, and the events wired to the canvas
  and the toolbar.\<close>

record canvas_library =
  lib_applyNodeChanges :: "node_change list \<Rightarrow> node list \<Rightarrow> node list"
  lib_applyEdgeChanges :: "edge_change list \<Rightarrow> edge list \<Rightarrow> edge list"
  lib_addEdge :: "edge_params \<Rightarrow> edge list \<Rightarrow> edge list"

datatype event =
    NodesChange "node_change list"
  | EdgesChange "edge_change list"
  | NodeClick node
  | EdgeClick edge
  | PaneClick
  | NodeDragStop
  | Mutation mutation
  | Undo
  | Redo

fun dispatch :: "canvas_library \<Rightarrow> event \<Rightarrow> session \<Rightarrow> session" where
  "dispatch lib (NodesChange changes) s = onNodesChange (lib_applyNodeChanges lib) changes s"
| "dispatch lib (EdgesChange changes) s = onEdgesChange (lib_applyEdgeChanges lib) changes s"
| "dispatch lib (NodeClick n) s = onNodeClick n s"
| "dispatch lib (EdgeClick e) s = onEdgeClick e s"
| "dispatch lib PaneClick s = onPaneClick s"
| "dispatch lib NodeDragStop s = onNodeDragStop s"
| "dispatch lib (Mutation m) s = mutate (lib_addEdge lib) m s"
| "dispatch lib Undo s = handleUndo s"
| "dispatch lib Redo s = handleRedo s"

definition run :: "canvas_library \<Rightarrow> event list \<Rightarrow> session \<Rightarrow> session" where
  "run lib evs s = fold (dispatch lib) evs s"

text \<open>
  An event that changes the selection only: a click on a node, an edge or the pane, or
  a change list whose entries all have type \<open>select\<close>. A drag in progress arrives as
  change lists whose entries all have type \<open>position\<close>.
\<close>

fun selection_only :: "event \<Rightarrow> bool" where
  "selection_only (NodesChange changes) = list_all (\<lambda>c. node_change_type c = ''select'') changes"
| "selection_only (EdgesChange changes) = list_all (\<lambda>c. edge_change_type c = ''select'') changes"
| "selection_only (NodeClick _) = True"
| "selection_only (EdgeClick _) = True"
| "selection_only PaneClick = True"
| "selection_only _ = False"

fun position_only :: "event \<Rightarrow> bool" where
  "position_only (NodesChange changes) = list_all (\<lambda>c. node_change_type c = ''position'') changes"
| "position_only _ = False"

section \<open>The operation of the specification that reports a missing node\<close>

text \<open>
  Following the words of the specification (section 4.1), not the source:
  \<open>updateNodeData(id, newData)\<close> replaces the node's payload and fails with
  \<open>NotFound\<close> if the id is absent. It is compared with \<open>updateNode\<close> below.
\<close>

datatype model_error = DuplicateId | NotFound

definition spec_updateNodeData ::
  "string \<Rightarrow> node_payload \<Rightarrow> node list \<Rightarrow> model_error + node list" where
  "spec_updateNodeData i d ns =
     (if i \<in> set (map node_id ns)
      then Inr (map (\<lambda>n. if node_id n = i then n\<lparr>node_data := d\<rparr> else n) ns)
      else Inl NotFound)"

section \<open>Edges between existing nodes\<close>

text \<open>
  Both endpoints of every edge are ids of nodes: the condition on edges of the data
  model, for a list of nodes and a list of edges, and for a session together with every
  entry of its two history stacks.
\<close>

abbreviation edges_closed :: "node list \<Rightarrow> edge list \<Rightarrow> bool" where
  "edges_closed ns es \<equiv>
     \<forall>e \<in> set es. source e \<in> set (map node_id ns) \<and> target e \<in> set (map node_id ns)"

abbreviation session_closed :: "session \<Rightarrow> bool" where
  "session_closed s \<equiv>
     edges_closed (nodes s) (edges s)
     \<and> (\<forall>p \<in> set (undoStack s). edges_closed (snap_nodes p) (snap_edges p))
     \<and> (\<forall>p \<in> set (redoStack s). edges_closed (snap_nodes p) (snap_edges p))"

section \<open>Sample sessions\<close>

text \<open>Concrete nodes, edges, columns and sessions on which the handlers are evaluated.\<close>

definition example_node :: "string \<Rightarrow> string \<Rightarrow> real \<Rightarrow> node" where
  "example_node i c v =
     \<lparr>node_id = i, node_type = Some ''customNode'',
      node_position = \<lparr>pos_x = 10, pos_y = v\<rparr>,
      node_data = \<lparr>label = i, isHeader = False, column = Some c, color = None, attrs = []\<rparr>,
      draggable = None, style_backgroundColor = None\<rparr>"

definition example_edge :: "string \<Rightarrow> string \<Rightarrow> string \<Rightarrow> edge" where
  "example_edge i a b =
     \<lparr>edge_id = i, source = a, target = b, sourceHandle = None, targetHandle = None,
      animated = True, edge_label = None\<rparr>"

definition example_column :: "string \<Rightarrow> flow_column" where
  "example_column c = \<lparr>col_id = c, col_title = c, col_color = ''#cccccc''\<rparr>"

definition example_payload :: "string \<Rightarrow> node_payload" where
  "example_payload l = \<lparr>label = l, isHeader = False, column = None, color = None, attrs = []\<rparr>"

definition column_payload :: "string \<Rightarrow> string \<Rightarrow> new_node" where
  "column_payload l c =
     \<lparr>nn_type = Some ''customNode'',
      nn_data = \<lparr>label = l, isHeader = False, column = Some c, color = None, attrs = []\<rparr>\<rparr>"

definition two_node_session :: session where
  "two_node_session =
     initial_session [example_node ''a'' ''A'' 100, example_node ''b'' ''A'' 220]
       [example_edge ''e1'' ''a'' ''b''] [example_column ''A'']"

definition column_A_session :: session where
  "column_A_session = addColumn (example_column ''A'') (initial_session [] [] [])"

definition two_column_session :: session where
  "two_column_session = addColumn (example_column ''B'') column_A_session"

definition drag_session :: session where
  "drag_session = initial_session [example_node ''a'' ''A'' 100] [] [example_column ''A'']"

text \<open>
  A stand-in for the library on the change kinds the examples use: a position change
  moves the node it names, a remove change drops it, any other change leaves the list
  as it is; edge changes and \<open>addEdge\<close> leave the edges as they are.
\<close>

fun example_applyNodeChange :: "node_change \<Rightarrow> node list \<Rightarrow> node list" where
  "example_applyNodeChange (NodePosition i (Some p) _) ns =
     map (\<lambda>n. if node_id n = i then n\<lparr>node_position := p\<rparr> else n) ns"
| "example_applyNodeChange (NodeRemove i) ns = filter (\<lambda>n. node_id n \<noteq> i) ns"
| "example_applyNodeChange _ ns = ns"

definition example_library :: canvas_library where
  "example_library =
     \<lparr>lib_applyNodeChanges = (\<lambda>changes ns. fold example_applyNodeChange changes ns),
      lib_applyEdgeChanges = (\<lambda>changes es. es),
      lib_addEdge = (\<lambda>params es. es)\<rparr>"

definition selection_events :: "event list" where
  "selection_events =
     [NodeClick (example_node ''b'' ''A'' 220),
      NodesChange [NodeSelect ''b'' True],
      EdgeClick (example_edge ''e1'' ''a'' ''b''),
      EdgesChange [EdgeSelect ''e1'' True],
      PaneClick]"

text \<open>One drag of node \<open>a\<close>: two position updates, then the end of the drag.\<close>

definition drag_events :: "event list" where
  "drag_events =
     [NodesChange [NodePosition ''a'' (Some \<lparr>pos_x = 50, pos_y = 130\<rparr>) True],
      NodesChange [NodePosition ''a'' (Some \<lparr>pos_x = 90, pos_y = 160\<rparr>) True],
      NodeDragStop]"

section \<open>Undo and redo around a structural mutation\<close>

lemmas example_defs =
  initial_session_def example_node_def example_edge_def example_column_def example_payload_def
  column_payload_def two_node_session_def column_A_session_def
  two_column_session_def drag_session_def example_library_def selection_events_def
  drag_events_def

lemma undoStack_mutate:
  "undoStack (mutate ae m s) = undoStack s @ [\<lparr>snap_nodes = nodes s, snap_edges = edges s\<rparr>]"
  by (cases m) (simp_all add: handleCreateNode_def deleteNode_def updateNode_def onConnect_def
      addColumn_def saveCurrentState_def deep_copy_def Let_def)

lemma redoStack_mutate: "redoStack (mutate ae m s) = []"
  by (cases m) (simp_all add: handleCreateNode_def deleteNode_def updateNode_def onConnect_def
      addColumn_def saveCurrentState_def deep_copy_def Let_def)

lemma handleUndo_push:
  assumes "undoStack t = us @ [p]"
  shows "handleUndo t =
    t\<lparr>redoStack := redoStack t @ [\<lparr>snap_nodes = nodes t, snap_edges = edges t\<rparr>],
      undoStack := us, nodes := snap_nodes p, edges := snap_edges p\<rparr>"
  using assms by (simp add: handleUndo_def deep_copy_def Let_def)

lemma handleRedo_push:
  assumes "redoStack t = rs @ [p]"
  shows "handleRedo t =
    t\<lparr>undoStack := undoStack t @ [\<lparr>snap_nodes = nodes t, snap_edges = edges t\<rparr>],
      redoStack := rs, nodes := snap_nodes p, edges := snap_edges p\<rparr>"
  using assms by (simp add: handleRedo_def deep_copy_def Let_def)

text \<open>
  Claim C1. For every session, every library \<open>addEdge\<close> and every structural mutation
  (creating a node, deleting a node, replacing a node's data, connecting an edge, adding
  a column): after the mutation, \<open>handleUndo\<close> gives back the \<open>nodes\<close> and \<open>edges\<close> of
  the session before the mutation, and \<open>handleRedo\<close> right after that undo gives back
  the session as the mutation left it.
\<close>

theorem undo_redo_roundtrip:
  "nodes (handleUndo (mutate ae m s)) = nodes s
   \<and> edges (handleUndo (mutate ae m s)) = edges s
   \<and> nodes (handleRedo (handleUndo (mutate ae m s))) = nodes (mutate ae m s)
   \<and> edges (handleRedo (handleUndo (mutate ae m s))) = edges (mutate ae m s)
   \<and> handleRedo (handleUndo (mutate ae m s)) = mutate ae m s"
proof -
  let ?t = "mutate ae m s"
  let ?pre = "\<lparr>snap_nodes = nodes s, snap_edges = edges s\<rparr>"
  have u: "undoStack ?t = undoStack s @ [?pre]" by (rule undoStack_mutate)
  have r: "redoStack ?t = []" by (rule redoStack_mutate)
  note hu = handleUndo_push [OF u]
  have r2: "redoStack (handleUndo ?t) = [] @ [\<lparr>snap_nodes = nodes ?t, snap_edges = edges ?t\<rparr>]"
    by (simp add: hu r)
  note hr = handleRedo_push [OF r2]
  have "handleRedo (handleUndo ?t) = ?t"
    by (simp add: hr) (simp add: hu u r)
  then show ?thesis by (simp add: hu)
qed

text \<open>The round trip on a session of two nodes and one edge, around the deletion of
  node \<open>a\<close>.\<close>

theorem undo_redo_roundtrip_witness:
  "nodes (handleUndo (mutate (lib_addEdge example_library) (DeleteNode ''a'') two_node_session))
     = [example_node ''a'' ''A'' 100, example_node ''b'' ''A'' 220]
   \<and> edges (handleUndo (mutate (lib_addEdge example_library) (DeleteNode ''a'') two_node_session))
     = [example_edge ''e1'' ''a'' ''b'']
   \<and> nodes (handleRedo (handleUndo
        (mutate (lib_addEdge example_library) (DeleteNode ''a'') two_node_session)))
     = [example_node ''b'' ''A'' 220]
   \<and> edges (handleRedo (handleUndo
        (mutate (lib_addEdge example_library) (DeleteNode ''a'') two_node_session)))
     = []"
  using undo_redo_roundtrip [of "lib_addEdge example_library" "DeleteNode ''a''" two_node_session]
  by (simp add: example_defs deleteNode_def saveCurrentState_def deep_copy_def Let_def)

text \<open>
  Claim C2. In a session whose redo stack is not empty, any structural mutation leaves
  the redo stack empty, so \<open>handleRedo\<close> after it changes nothing; after another
  \<open>handleUndo\<close> the redo stack is not empty again.
\<close>

theorem mutation_clears_redo:
  "redoStack s \<noteq> [] \<Longrightarrow>
     redoStack (mutate ae m s) = []
     \<and> handleRedo (mutate ae m s) = mutate ae m s
     \<and> redoStack (handleUndo (mutate ae m s)) \<noteq> []"
  by (simp add: redoStack_mutate handleRedo_def handleUndo_push [OF undoStack_mutate])

text \<open>After deleting \<open>a\<close> and undoing, the redo stack holds one entry; replacing the
  data of \<open>b\<close> then empties it.\<close>

theorem mutation_clears_redo_witness:
  "redoStack (handleUndo (deleteNode ''a'' two_node_session)) \<noteq> []
   \<and> redoStack (mutate (lib_addEdge example_library) (UpdateNode ''b'' (example_payload ''B''))
         (handleUndo (deleteNode ''a'' two_node_session))) = []
   \<and> handleRedo (mutate (lib_addEdge example_library) (UpdateNode ''b'' (example_payload ''B''))
         (handleUndo (deleteNode ''a'' two_node_session)))
      = mutate (lib_addEdge example_library) (UpdateNode ''b'' (example_payload ''B''))
         (handleUndo (deleteNode ''a'' two_node_session))"
proof -
  have h: "redoStack (handleUndo (deleteNode ''a'' two_node_session)) \<noteq> []"
    by (simp add: example_defs handleUndo_def deleteNode_def saveCurrentState_def
        deep_copy_def Let_def)
  from mutation_clears_redo [OF h, of "lib_addEdge example_library"
      "UpdateNode ''b'' (example_payload ''B'')"] h
  show ?thesis by simp
qed

text \<open>
  Claim C9. Every call of \<open>deleteNode\<close> or \<open>updateNode\<close> appends exactly one entry, the
  \<open>nodes\<close> and \<open>edges\<close> before the call, to the undo stack and empties the redo stack,
  whatever the id: also when no node has it and \<open>nodes\<close> and \<open>edges\<close> stay as they are.
\<close>

theorem history_grows_on_delete_and_update:
  "undoStack (deleteNode i s) = undoStack s @ [\<lparr>snap_nodes = nodes s, snap_edges = edges s\<rparr>]
   \<and> length (undoStack (deleteNode i s)) = length (undoStack s) + 1
   \<and> redoStack (deleteNode i s) = []
   \<and> undoStack (updateNode i d s) = undoStack s @ [\<lparr>snap_nodes = nodes s, snap_edges = edges s\<rparr>]
   \<and> length (undoStack (updateNode i d s)) = length (undoStack s) + 1
   \<and> redoStack (updateNode i d s) = []"
  by (simp add: deleteNode_def updateNode_def saveCurrentState_def deep_copy_def Let_def)

text \<open>No node of the sample session has the id \<open>ghost\<close>: deleting or updating it keeps
  \<open>nodes\<close> and \<open>edges\<close> and still records one undo entry.\<close>

theorem history_grows_on_delete_and_update_witness:
  "''ghost'' \<notin> set (map node_id (nodes two_node_session))
   \<and> nodes (deleteNode ''ghost'' two_node_session) = nodes two_node_session
   \<and> edges (deleteNode ''ghost'' two_node_session) = edges two_node_session
   \<and> nodes (updateNode ''ghost'' (example_payload ''x'') two_node_session) = nodes two_node_session
   \<and> edges (updateNode ''ghost'' (example_payload ''x'') two_node_session) = edges two_node_session
   \<and> length (undoStack two_node_session) = 0
   \<and> length (undoStack (deleteNode ''ghost'' two_node_session)) = 1
   \<and> redoStack (deleteNode ''ghost'' two_node_session) = []
   \<and> length (undoStack (updateNode ''ghost'' (example_payload ''x'') two_node_session)) = 1
   \<and> redoStack (updateNode ''ghost'' (example_payload ''x'') two_node_session) = []"
  using history_grows_on_delete_and_update
          [of "''ghost''" two_node_session "example_payload ''x''"]
  by (simp add: example_defs deleteNode_def updateNode_def saveCurrentState_def deep_copy_def
      Let_def)

section \<open>Deleting a node\<close>

lemma deleteNode_nodes: "nodes (deleteNode i s) = filter (\<lambda>n. node_id n \<noteq> i) (nodes s)"
  by (simp add: deleteNode_def saveCurrentState_def Let_def)

lemma deleteNode_edges:
  "edges (deleteNode i s) = filter (\<lambda>e. source e \<noteq> i \<and> target e \<noteq> i) (edges s)"
  by (simp add: deleteNode_def saveCurrentState_def Let_def)

lemma deleteNode_stacks:
  "undoStack (deleteNode i s) = undoStack s @ [\<lparr>snap_nodes = nodes s, snap_edges = edges s\<rparr>]"
  "redoStack (deleteNode i s) = []"
  by (simp_all add: deleteNode_def saveCurrentState_def deep_copy_def Let_def)

lemma deleteNode_unreferenced:
  assumes "i \<notin> set (map node_id (nodes s))"
    and "\<forall>e \<in> set (edges s). source e \<noteq> i \<and> target e \<noteq> i"
  shows "nodes (deleteNode i s) = nodes s \<and> edges (deleteNode i s) = edges s"
  using assms by (auto simp add: deleteNode_nodes deleteNode_edges filter_id_conv)

lemma deleteNode_keeps_closed:
  assumes "edges_closed (nodes s) (edges s)"
  shows "edges_closed (nodes (deleteNode i s)) (edges (deleteNode i s))"
  using assms by (auto simp add: deleteNode_nodes deleteNode_edges)

text \<open>
  The handlers written in the component keep the condition: creating, deleting and
  updating a node, adding a column, undo, redo, the clicks and the end of a drag lead
  from a session that satisfies it, history included, to one that does.
\<close>

lemma updated_ids:
  "map node_id (map (\<lambda>n. if node_id n = i then n\<lparr>node_data := d\<rparr> else n) ns) = map node_id ns"
  by (induction ns) auto

lemma last_in_stack: "xs \<noteq> [] \<Longrightarrow> xs ! (length xs - 1) \<in> set xs"
  by simp

lemma session_closed_handlers:
  assumes "session_closed s"
  shows "session_closed (handleCreateNode nd t s)"
    and "session_closed (deleteNode i s)"
    and "session_closed (updateNode i d s)"
    and "session_closed (addColumn c s)"
    and "session_closed (handleUndo s)"
    and "session_closed (handleRedo s)"
    and "session_closed (onNodeClick n s)"
    and "session_closed (onEdgeClick e s)"
    and "session_closed (onPaneClick s)"
    and "session_closed (onNodeDragStop s)"
proof -
  show "session_closed (handleCreateNode nd t s)"
    using assms by (auto simp add: handleCreateNode_def saveCurrentState_def deep_copy_def Let_def)
  show "session_closed (deleteNode i s)"
    using assms deleteNode_keeps_closed [of s i]
    by (auto simp add: deleteNode_stacks)
  show "session_closed (updateNode i d s)"
    using assms updated_ids [of i d "nodes s"]
    by (auto simp add: updateNode_def saveCurrentState_def deep_copy_def Let_def)
  show "session_closed (addColumn c s)"
    using assms by (auto simp add: addColumn_def saveCurrentState_def deep_copy_def Let_def)
  show "session_closed (handleUndo s)"
  proof (cases "undoStack s = []")
    case True
    with assms show ?thesis by (simp add: handleUndo_def)
  next
    case False
    then have top: "undoStack s ! (length (undoStack s) - 1) \<in> set (undoStack s)"
      by (rule last_in_stack)
    have rest: "set (butlast (undoStack s)) \<subseteq> set (undoStack s)"
      by (auto dest: in_set_butlastD)
    from False assms top rest show ?thesis
      by (auto simp add: handleUndo_def deep_copy_def Let_def)
  qed
  show "session_closed (handleRedo s)"
  proof (cases "redoStack s = []")
    case True
    with assms show ?thesis by (simp add: handleRedo_def)
  next
    case False
    then have top: "redoStack s ! (length (redoStack s) - 1) \<in> set (redoStack s)"
      by (rule last_in_stack)
    have rest: "set (butlast (redoStack s)) \<subseteq> set (redoStack s)"
      by (auto dest: in_set_butlastD)
    from False assms top rest show ?thesis
      by (auto simp add: handleRedo_def deep_copy_def Let_def)
  qed
  show "session_closed (onNodeClick n s)" "session_closed (onEdgeClick e s)"
    "session_closed (onPaneClick s)" "session_closed (onNodeDragStop s)"
    using assms
    by (auto simp add: onNodeClick_def onEdgeClick_def onPaneClick_def onNodeDragStop_def
        saveCurrentState_def deep_copy_def)
qed

text \<open>
  Claim C3. \<open>deleteNode\<close> keeps, in their order, exactly the nodes with another id
  and exactly the edges whose source and target are both another id, in one step: no
  node with the id and no edge starting or ending at it is left, and edges that lay
  between existing nodes still do. A second call with the same id changes neither
  \<open>nodes\<close> nor \<open>edges\<close>. When no node has the id, in a session whose edges lie
  between existing nodes, \<open>nodes\<close> and \<open>edges\<close> are as before.
\<close>

theorem deleteNode_removes_node_and_edges:
  "nodes (deleteNode i s) = filter (\<lambda>n. node_id n \<noteq> i) (nodes s)
   \<and> edges (deleteNode i s) = filter (\<lambda>e. source e \<noteq> i \<and> target e \<noteq> i) (edges s)
   \<and> i \<notin> set (map node_id (nodes (deleteNode i s)))
   \<and> i \<notin> set (map source (edges (deleteNode i s)))
   \<and> i \<notin> set (map target (edges (deleteNode i s)))
   \<and> nodes (deleteNode i (deleteNode i s)) = nodes (deleteNode i s)
   \<and> edges (deleteNode i (deleteNode i s)) = edges (deleteNode i s)
   \<and> (edges_closed (nodes s) (edges s)
        \<longrightarrow> edges_closed (nodes (deleteNode i s)) (edges (deleteNode i s)))
   \<and> (i \<notin> set (map node_id (nodes s)) \<and> edges_closed (nodes s) (edges s)
        \<longrightarrow> nodes (deleteNode i s) = nodes s \<and> edges (deleteNode i s) = edges s)"
proof -
  have gone: "i \<notin> set (map node_id (nodes (deleteNode i s)))"
    "i \<notin> set (map source (edges (deleteNode i s)))"
    "i \<notin> set (map target (edges (deleteNode i s)))"
    by (auto simp add: deleteNode_nodes deleteNode_edges)
  have twice: "nodes (deleteNode i (deleteNode i s)) = nodes (deleteNode i s)"
    "edges (deleteNode i (deleteNode i s)) = edges (deleteNode i s)"
    by (simp_all add: deleteNode_nodes deleteNode_edges)
  have closed: "edges_closed (nodes (deleteNode i s)) (edges (deleteNode i s))"
    if "edges_closed (nodes s) (edges s)"
    using that by (rule deleteNode_keeps_closed)
  have absent: "nodes (deleteNode i s) = nodes s \<and> edges (deleteNode i s) = edges s"
    if a: "i \<notin> set (map node_id (nodes s))" and c: "edges_closed (nodes s) (edges s)"
  proof (rule deleteNode_unreferenced [OF a])
    show "\<forall>e \<in> set (edges s). source e \<noteq> i \<and> target e \<noteq> i"
      using a c by blast
  qed
  from gone twice closed absent show ?thesis
    by (simp only: deleteNode_nodes [of i s] deleteNode_edges [of i s]) blast
qed

text \<open>Deleting \<open>a\<close> from the sample session removes the node and its edge, once or
  twice; deleting the absent id \<open>c\<close> keeps both lists.\<close>

theorem deleteNode_removes_node_and_edges_witness:
  "nodes (deleteNode ''a'' two_node_session) = [example_node ''b'' ''A'' 220]
   \<and> edges (deleteNode ''a'' two_node_session) = []
   \<and> nodes (deleteNode ''a'' (deleteNode ''a'' two_node_session)) = [example_node ''b'' ''A'' 220]
   \<and> edges (deleteNode ''a'' (deleteNode ''a'' two_node_session)) = []
   \<and> map node_id (nodes two_node_session) = [''a'', ''b'']
   \<and> map source (edges two_node_session) = [''a'']
   \<and> map target (edges two_node_session) = [''b'']
   \<and> ''c'' \<notin> set (map node_id (nodes two_node_session))
   \<and> nodes (deleteNode ''c'' two_node_session) = nodes two_node_session
   \<and> edges (deleteNode ''c'' two_node_session) = edges two_node_session"
proof -
  have absent: "''c'' \<notin> set (map node_id (nodes two_node_session))"
    by (simp add: initial_session_def example_node_def two_node_session_def)
  have closed: "edges_closed (nodes two_node_session) (edges two_node_session)"
    by (simp add: initial_session_def example_node_def example_edge_def two_node_session_def)
  from deleteNode_removes_node_and_edges [of "''a''" two_node_session]
    deleteNode_removes_node_and_edges [of "''c''" two_node_session] absent closed
  have "nodes (deleteNode ''c'' two_node_session) = nodes two_node_session
      \<and> edges (deleteNode ''c'' two_node_session) = edges two_node_session"
    by blast
  then show ?thesis
    by (simp add: initial_session_def example_node_def example_edge_def two_node_session_def
        deleteNode_def saveCurrentState_def deep_copy_def Let_def)
qed

section \<open>Adding a column\<close>

text \<open>
  Claim C4, as the code has it. \<open>addColumn\<close> appends the column to the column sequence
  and appends exactly one node, the header with id \<open>header-<columnId>\<close>, placed in the
  slot after the columns present before the call at \<open>y = 10\<close>; it does so for every
  column id, whether or not a column with that id is already present.
\<close>

theorem addColumn_appends_header:
  "availableColumns (addColumn c s) = availableColumns s @ [c]
   \<and> (\<exists>h. nodes (addColumn c s) = nodes s @ [h]
          \<and> node_id h = ''header-'' @ col_id c
          \<and> isHeader (node_data h)
          \<and> column (node_data h) = Some (col_id c)
          \<and> pos_x (node_position h)
              = real (length (availableColumns s)) * (200 + 80) + (200 - 180) / 2
          \<and> pos_y (node_position h) = 10)
   \<and> edges (addColumn c s) = edges s"
  by (simp add: addColumn_def saveCurrentState_def Let_def)

text \<open>Adding column \<open>B\<close> after column \<open>A\<close>.\<close>

theorem addColumn_appends_header_witness:
  "map col_id (availableColumns (addColumn (example_column ''B'') column_A_session))
     = [''A'', ''B'']
   \<and> map node_id (nodes (addColumn (example_column ''B'') column_A_session))
     = [''header-A'', ''header-B'']
   \<and> map node_position (nodes (addColumn (example_column ''B'') column_A_session))
     = [\<lparr>pos_x = 10, pos_y = 10\<rparr>, \<lparr>pos_x = 290, pos_y = 10\<rparr>]"
  using addColumn_appends_header [of "example_column ''B''" column_A_session]
  by (simp add: example_defs addColumn_def saveCurrentState_def deep_copy_def Let_def)

text \<open>
  Claim C4 as stated fails on a column id that is already present: adding column \<open>A\<close>
  to the session that has column \<open>A\<close> does not leave the columns and nodes unchanged;
  it yields two columns \<open>A\<close> and two nodes \<open>header-A\<close>.
\<close>

theorem addColumn_duplicate_counterexample:
  "map col_id (availableColumns column_A_session) = [''A'']
   \<and> map node_id (nodes column_A_session) = [''header-A'']
   \<and> map col_id (availableColumns (addColumn (example_column ''A'') column_A_session))
       = [''A'', ''A'']
   \<and> map node_id (nodes (addColumn (example_column ''A'') column_A_session))
       = [''header-A'', ''header-A'']"
  by (simp add: example_defs addColumn_def saveCurrentState_def deep_copy_def Let_def)

section \<open>Replacing a node's data\<close>

lemma map_update_absent:
  "i \<notin> set (map node_id ns) \<Longrightarrow>
   map (\<lambda>n. if node_id n = i then n\<lparr>node_data := d\<rparr> else n) ns = ns"
  by (induction ns) auto

text \<open>
  Claim C6, as the code has it. \<open>updateNode\<close> never fails. Each node with the given id
  gets the new data in place of the old, keeping its id, position and type; every
  other node and every edge is unchanged; and when no node has the id, \<open>nodes\<close> is
  unchanged.
\<close>

theorem updateNode_replaces_data:
  "length (nodes (updateNode i d s)) = length (nodes s)
   \<and> (\<forall>k < length (nodes s).
        (node_id (nodes s ! k) = i \<longrightarrow>
           nodes (updateNode i d s) ! k = (nodes s ! k)\<lparr>node_data := d\<rparr>
           \<and> node_data (nodes (updateNode i d s) ! k) = d
           \<and> node_id (nodes (updateNode i d s) ! k) = node_id (nodes s ! k)
           \<and> node_position (nodes (updateNode i d s) ! k) = node_position (nodes s ! k)
           \<and> node_type (nodes (updateNode i d s) ! k) = node_type (nodes s ! k))
        \<and> (node_id (nodes s ! k) \<noteq> i \<longrightarrow> nodes (updateNode i d s) ! k = nodes s ! k))
   \<and> edges (updateNode i d s) = edges s
   \<and> (i \<notin> set (map node_id (nodes s)) \<longrightarrow> nodes (updateNode i d s) = nodes s)"
  using map_update_absent [of i "nodes s" d]
  by (auto simp add: updateNode_def saveCurrentState_def Let_def)

text \<open>Replacing the data of \<open>b\<close>, and of the absent id \<open>ghost\<close>.\<close>

theorem updateNode_replaces_data_witness:
  "nodes (updateNode ''b'' (example_payload ''B'') two_node_session)
     = [example_node ''a'' ''A'' 100,
        (example_node ''b'' ''A'' 220)\<lparr>node_data := example_payload ''B''\<rparr>]
   \<and> ''ghost'' \<notin> set (map node_id (nodes two_node_session))
   \<and> nodes (updateNode ''ghost'' (example_payload ''B'') two_node_session)
     = nodes two_node_session"
  using updateNode_replaces_data [of "''b''" "example_payload ''B''" two_node_session]
    updateNode_replaces_data [of "''ghost''" "example_payload ''B''" two_node_session]
  by (simp add: example_defs updateNode_def saveCurrentState_def deep_copy_def Let_def)

text \<open>
  Claim C6 as stated fails on an absent id: where the operation of the specification
  answers \<open>NotFound\<close>, \<open>updateNode\<close> completes, returns the unchanged node list and
  records an undo entry.
\<close>

theorem updateNode_absent_counterexample:
  "spec_updateNodeData ''ghost'' (example_payload ''B'') (nodes two_node_session) = Inl NotFound
   \<and> Inr (nodes (updateNode ''ghost'' (example_payload ''B'') two_node_session))
       \<noteq> spec_updateNodeData ''ghost'' (example_payload ''B'') (nodes two_node_session)
   \<and> undoStack two_node_session = []
   \<and> undoStack (updateNode ''ghost'' (example_payload ''B'') two_node_session)
       = [\<lparr>snap_nodes = nodes two_node_session, snap_edges = edges two_node_session\<rparr>]"
  by (simp add: example_defs spec_updateNodeData_def updateNode_def saveCurrentState_def
      deep_copy_def Let_def)

section \<open>Placing a new node\<close>

lemma findIndex_from_first:
  "i < length cs \<Longrightarrow> p (cs ! i) \<Longrightarrow> (\<forall>j<i. \<not> p (cs ! j)) \<Longrightarrow>
   findIndex_from p cs k = k + int i"
proof (induction cs arbitrary: i k)
  case Nil
  then show ?case by simp
next
  case (Cons c cs)
  show ?case
  proof (cases i)
    case 0
    with Cons.prems show ?thesis by simp
  next
    case (Suc i')
    from Cons.prems Suc have "\<not> p c" by auto
    moreover have "findIndex_from p cs (k + 1) = (k + 1) + int i'"
    proof (rule Cons.IH)
      show "i' < length cs" using Cons.prems Suc by simp
      show "p (cs ! i')" using Cons.prems Suc by simp
      show "\<forall>j<i'. \<not> p (cs ! j)"
      proof (intro allI impI)
        fix j assume "j < i'"
        then have "Suc j < i" using Suc by simp
        with Cons.prems have "\<not> p ((c # cs) ! Suc j)" by blast
        then show "\<not> p (cs ! j)" by simp
      qed
    qed
    ultimately show ?thesis using Suc by simp
  qed
qed

lemma findIndex_from_none: "(\<forall>c \<in> set cs. \<not> p c) \<Longrightarrow> findIndex_from p cs k = - 1"
  by (induction cs arbitrary: k) auto

lemma stacked_y:
  "(case map f ns of [] \<Rightarrow> (100::real) | v # vs \<Rightarrow> fold max vs v + 120)
     = (if ns = [] then 100 else Max (set (map f ns)) + 120)"
proof (cases ns)
  case Nil
  then show ?thesis by simp
next
  case (Cons a as)
  have "Max (set (f a # map f as)) = fold max (map f as) (f a)"
    by (rule Max.set_eq_fold)
  with Cons show ?thesis by simp
qed

lemma handleCreateNode_nodes:
  "nodes (handleCreateNode d t s) = nodes s @
     [\<lparr>node_id = ''node-'' @ string_of_nat t,
       node_type = nn_type d,
       node_position =
         \<lparr>pos_x = real_of_int (findIndex (\<lambda>col. Some (col_id col) = column (nn_data d)) (availableColumns s))
                    * (200 + 80) + (200 - 180) / 2,
          pos_y = (let existing = filter (\<lambda>n. column (node_data n) = column (nn_data d)
                                            \<and> \<not> isHeader (node_data n)) (nodes s)
                   in if existing = [] then 100
                      else Max (set (map (\<lambda>n. pos_y (node_position n)) existing)) + 120)\<rparr>,
       node_data = nn_data d,
       draggable = None,
       style_backgroundColor = None\<rparr>]"
  unfolding handleCreateNode_def Let_def stacked_y
  by (simp add: saveCurrentState_def)

lemma handleCreateNode_other:
  "availableColumns (handleCreateNode d t s) = availableColumns s"
  "edges (handleCreateNode d t s) = edges s"
  by (simp_all add: handleCreateNode_def saveCurrentState_def Let_def)

text \<open>
  Claim C5. A node created for column \<open>C\<close>, where \<open>C\<close> is the id of the column at
  index \<open>i\<close> and of no earlier column, is appended with
  \<open>x = i * (200 + 80) + (200 - 180) / 2\<close>, and with \<open>y = 100\<close> when no node of column
  \<open>C\<close> other than a header exists, else the largest \<open>y\<close> of those nodes plus \<open>120\<close>.
  So three nodes created one after the other for a column without such nodes get
  \<open>y = 100, 220, 340\<close>.
\<close>

theorem new_node_placement:
  "(column (nn_data d) = Some C \<and> i < length (availableColumns s)
      \<and> col_id (availableColumns s ! i) = C \<and> (\<forall>j<i. col_id (availableColumns s ! j) \<noteq> C)
    \<longrightarrow> (\<exists>n. nodes (handleCreateNode d t s) = nodes s @ [n]
            \<and> pos_x (node_position n) = real i * (200 + 80) + (200 - 180) / 2
            \<and> pos_y (node_position n) =
                (if filter (\<lambda>n. column (node_data n) = Some C \<and> \<not> isHeader (node_data n)) (nodes s) = []
                 then 100
                 else Max (set (map (\<lambda>n. pos_y (node_position n))
                        (filter (\<lambda>n. column (node_data n) = Some C \<and> \<not> isHeader (node_data n)) (nodes s))))
                      + 120)))
   \<and> (filter (\<lambda>n. column (node_data n) = Some C \<and> \<not> isHeader (node_data n)) (nodes s) = []
      \<and> column (nn_data d1) = Some C \<and> \<not> isHeader (nn_data d1)
      \<and> column (nn_data d2) = Some C \<and> \<not> isHeader (nn_data d2)
      \<and> column (nn_data d3) = Some C
    \<longrightarrow> map (\<lambda>n. pos_y (node_position n))
          (drop (length (nodes s))
             (nodes (handleCreateNode d3 t3 (handleCreateNode d2 t2 (handleCreateNode d1 t1 s)))))
        = [100, 220, 340])"
proof (intro conjI impI)
  assume a: "column (nn_data d) = Some C \<and> i < length (availableColumns s)
      \<and> col_id (availableColumns s ! i) = C \<and> (\<forall>j<i. col_id (availableColumns s ! j) \<noteq> C)"
  have "findIndex_from (\<lambda>col. col_id col = C) (availableColumns s) 0 = 0 + int i"
    by (rule findIndex_from_first) (use a in auto)
  then have fi: "findIndex (\<lambda>col. col_id col = C) (availableColumns s) = int i"
    by (simp add: findIndex_def)
  show "\<exists>n. nodes (handleCreateNode d t s) = nodes s @ [n]
            \<and> pos_x (node_position n) = real i * (200 + 80) + (200 - 180) / 2
            \<and> pos_y (node_position n) =
                (if filter (\<lambda>n. column (node_data n) = Some C \<and> \<not> isHeader (node_data n)) (nodes s) = []
                 then 100
                 else Max (set (map (\<lambda>n. pos_y (node_position n))
                        (filter (\<lambda>n. column (node_data n) = Some C \<and> \<not> isHeader (node_data n)) (nodes s))))
                      + 120)"
    using a by (simp add: handleCreateNode_nodes fi Let_def)
next
  assume b: "filter (\<lambda>n. column (node_data n) = Some C \<and> \<not> isHeader (node_data n)) (nodes s) = []
      \<and> column (nn_data d1) = Some C \<and> \<not> isHeader (nn_data d1)
      \<and> column (nn_data d2) = Some C \<and> \<not> isHeader (nn_data d2)
      \<and> column (nn_data d3) = Some C"
  show "map (\<lambda>n. pos_y (node_position n))
          (drop (length (nodes s))
             (nodes (handleCreateNode d3 t3 (handleCreateNode d2 t2 (handleCreateNode d1 t1 s)))))
        = [100, 220, 340]"
    using b by (simp add: handleCreateNode_nodes Let_def)
qed

text \<open>Three nodes created for column \<open>B\<close>, the second of two columns: all at
  \<open>x = 290\<close>, at \<open>y = 100, 220, 340\<close>, after the two headers.\<close>

theorem new_node_placement_witness:
  "map node_position
     (nodes (handleCreateNode (column_payload ''n3'' ''B'') 3
        (handleCreateNode (column_payload ''n2'' ''B'') 2
          (handleCreateNode (column_payload ''n1'' ''B'') 1 two_column_session))))
   = [\<lparr>pos_x = 10, pos_y = 10\<rparr>, \<lparr>pos_x = 290, pos_y = 10\<rparr>,
      \<lparr>pos_x = 290, pos_y = 100\<rparr>, \<lparr>pos_x = 290, pos_y = 220\<rparr>, \<lparr>pos_x = 290, pos_y = 340\<rparr>]"
proof -
  have cols: "availableColumns two_column_session = [example_column ''A'', example_column ''B'']"
    by (simp add: example_defs addColumn_def saveCurrentState_def Let_def)
  have ns: "map node_id (nodes two_column_session) = [''header-A'', ''header-B'']"
    by (simp add: example_defs addColumn_def saveCurrentState_def Let_def)
  have hyp1: "column (nn_data (column_payload ''n1'' ''B'')) = Some ''B''
      \<and> 1 < length (availableColumns two_column_session)
      \<and> col_id (availableColumns two_column_session ! 1) = ''B''
      \<and> (\<forall>j<1. col_id (availableColumns two_column_session ! j) \<noteq> ''B'')"
    by (simp add: cols) (simp add: example_defs)
  have hyp2: "filter (\<lambda>n. column (node_data n) = Some ''B'' \<and> \<not> isHeader (node_data n))
         (nodes two_column_session) = []
      \<and> column (nn_data (column_payload ''n1'' ''B'')) = Some ''B''
      \<and> \<not> isHeader (nn_data (column_payload ''n1'' ''B''))
      \<and> column (nn_data (column_payload ''n2'' ''B'')) = Some ''B''
      \<and> \<not> isHeader (nn_data (column_payload ''n2'' ''B''))
      \<and> column (nn_data (column_payload ''n3'' ''B'')) = Some ''B''"
    by (simp add: example_defs addColumn_def saveCurrentState_def Let_def)
  note t = new_node_placement [of "column_payload ''n1'' ''B''" "''B''" 1 two_column_session 1
      "column_payload ''n1'' ''B''" "column_payload ''n2'' ''B''" "column_payload ''n3'' ''B''" 3 2 1]
  from t hyp1 hyp2 show ?thesis
    by (simp add: handleCreateNode_nodes handleCreateNode_other Let_def findIndex_def)
      (simp add: example_defs addColumn_def saveCurrentState_def Let_def)
qed

section \<open>Selection and dragging\<close>

lemma filter_none: "list_all (\<lambda>c. \<not> P c) cs \<Longrightarrow> filter P cs = []"
  by (induction cs) auto

lemma dispatch_selection_only:
  "selection_only ev \<Longrightarrow>
   undoStack (dispatch lib ev s) = undoStack s \<and> redoStack (dispatch lib ev s) = redoStack s"
proof (cases ev)
  case (NodesChange changes)
  assume "selection_only ev"
  with NodesChange have "list_all (\<lambda>c. node_change_type c = ''select'') changes" by simp
  then have "list_all (\<lambda>c. \<not> (node_change_type c \<noteq> ''position'' \<and> node_change_type c \<noteq> ''select'')) changes"
    by (simp add: list_all_iff)
  then have "filter (\<lambda>c. node_change_type c \<noteq> ''position'' \<and> node_change_type c \<noteq> ''select'') changes = []"
    by (rule filter_none)
  with NodesChange show ?thesis by (simp add: onNodesChange_def Let_def)
next
  case (EdgesChange changes)
  assume "selection_only ev"
  with EdgesChange have "list_all (\<lambda>c. \<not> (edge_change_type c \<noteq> ''select'')) changes"
    by (simp add: list_all_iff)
  then have "filter (\<lambda>c. edge_change_type c \<noteq> ''select'') changes = []"
    by (rule filter_none)
  with EdgesChange show ?thesis by (simp add: onEdgesChange_def Let_def)
qed (simp_all add: onNodeClick_def onEdgeClick_def onPaneClick_def)

text \<open>
  Claim C7. A sequence of events that change the selection only (clicks on a node, an
  edge or the pane, and node or edge change lists of type \<open>select\<close>) leaves the undo
  stack and the redo stack as they were, whatever the library does with the changes.
\<close>

theorem selection_keeps_history:
  "list_all selection_only evs \<Longrightarrow>
   undoStack (run lib evs s) = undoStack s \<and> redoStack (run lib evs s) = redoStack s"
  unfolding run_def
proof (induction evs arbitrary: s)
  case Nil
  show ?case by simp
next
  case (Cons ev evs)
  from Cons.prems have "selection_only ev" and "list_all selection_only evs" by simp_all
  with Cons.IH [of "dispatch lib ev s"] dispatch_selection_only [of ev lib s]
  show ?case by simp
qed

text \<open>Five selection events on a session with an empty undo stack and one redo entry.\<close>

theorem selection_keeps_history_witness:
  "list_all selection_only selection_events
   \<and> undoStack (run example_library selection_events
        (handleUndo (deleteNode ''a'' two_node_session))) = []
   \<and> redoStack (run example_library selection_events
        (handleUndo (deleteNode ''a'' two_node_session)))
      = [\<lparr>snap_nodes = [example_node ''b'' ''A'' 220], snap_edges = []\<rparr>]"
proof -
  have h: "list_all selection_only selection_events"
    by (simp add: selection_events_def)
  have u: "undoStack (handleUndo (deleteNode ''a'' two_node_session)) = []"
    by (simp add: example_defs handleUndo_def deleteNode_def saveCurrentState_def deep_copy_def Let_def)
  have r: "redoStack (handleUndo (deleteNode ''a'' two_node_session))
      = [\<lparr>snap_nodes = [example_node ''b'' ''A'' 220], snap_edges = []\<rparr>]"
    by (simp add: example_defs handleUndo_def deleteNode_def saveCurrentState_def deep_copy_def Let_def)
  from selection_keeps_history [OF h, of example_library "handleUndo (deleteNode ''a'' two_node_session)"]
    h u r
  show ?thesis by simp
qed

lemma dispatch_position_only:
  "position_only ev \<Longrightarrow>
   undoStack (dispatch lib ev s) = undoStack s \<and> redoStack (dispatch lib ev s) = redoStack s
   \<and> edges (dispatch lib ev s) = edges s"
proof (cases ev)
  case (NodesChange changes)
  assume "position_only ev"
  with NodesChange have "list_all (\<lambda>c. \<not> (node_change_type c \<noteq> ''position'' \<and> node_change_type c \<noteq> ''select'')) changes"
    by (simp add: list_all_iff)
  then have "filter (\<lambda>c. node_change_type c \<noteq> ''position'' \<and> node_change_type c \<noteq> ''select'') changes = []"
    by (rule filter_none)
  with NodesChange show ?thesis by (simp add: onNodesChange_def Let_def)
qed simp_all

lemma run_position_only:
  "list_all position_only evs \<Longrightarrow>
   undoStack (run lib evs s) = undoStack s \<and> redoStack (run lib evs s) = redoStack s
   \<and> edges (run lib evs s) = edges s"
  unfolding run_def
proof (induction evs arbitrary: s)
  case Nil
  show ?case by simp
next
  case (Cons ev evs)
  from Cons.prems have "position_only ev" and "list_all position_only evs" by simp_all
  with Cons.IH [of "dispatch lib ev s"] dispatch_position_only [of ev lib s]
  show ?case by simp
qed

lemma drag_gesture_history:
  assumes "list_all position_only moves"
  shows "undoStack (run lib (moves @ [NodeDragStop]) s)
           = undoStack s @ [\<lparr>snap_nodes = nodes (run lib moves s), snap_edges = edges s\<rparr>]"
    and "nodes (run lib (moves @ [NodeDragStop]) s) = nodes (run lib moves s)"
    and "nodes (handleUndo (run lib (moves @ [NodeDragStop]) s)) = nodes (run lib moves s)"
proof -
  have split: "run lib (moves @ [NodeDragStop]) s = onNodeDragStop (run lib moves s)"
    by (simp add: run_def)
  note inv = run_position_only [OF assms, of lib s]
  show u: "undoStack (run lib (moves @ [NodeDragStop]) s)
           = undoStack s @ [\<lparr>snap_nodes = nodes (run lib moves s), snap_edges = edges s\<rparr>]"
    by (simp add: split onNodeDragStop_def saveCurrentState_def deep_copy_def inv)
  show "nodes (run lib (moves @ [NodeDragStop]) s) = nodes (run lib moves s)"
    by (simp add: split onNodeDragStop_def saveCurrentState_def)
  show "nodes (handleUndo (run lib (moves @ [NodeDragStop]) s)) = nodes (run lib moves s)"
    by (simp add: handleUndo_push [OF u])
qed

text \<open>
  Claim C8. One drag (position updates, then the end of the drag) pushes exactly one
  undo entry. The entry is taken by \<open>onNodeDragStop\<close>, after the position updates
  were applied, so it holds the nodes where the drag left them, not where it found
  them: dragging node \<open>a\<close> from \<open>(10, 100)\<close> to \<open>(90, 160)\<close> records the node at
  \<open>(90, 160)\<close>, and \<open>handleUndo\<close> after the drag leaves it there.
\<close>

theorem drag_snapshot_holds_moved_nodes:
  "nodes drag_session = [example_node ''a'' ''A'' 100]
   \<and> undoStack drag_session = []
   \<and> undoStack (run example_library drag_events drag_session)
      = [\<lparr>snap_nodes = [(example_node ''a'' ''A'' 100)\<lparr>node_position := \<lparr>pos_x = 90, pos_y = 160\<rparr>\<rparr>],
          snap_edges = []\<rparr>]
   \<and> nodes (run example_library drag_events drag_session)
      = [(example_node ''a'' ''A'' 100)\<lparr>node_position := \<lparr>pos_x = 90, pos_y = 160\<rparr>\<rparr>]
   \<and> nodes (handleUndo (run example_library drag_events drag_session))
      = [(example_node ''a'' ''A'' 100)\<lparr>node_position := \<lparr>pos_x = 90, pos_y = 160\<rparr>\<rparr>]"
  by (simp add: example_defs run_def onNodesChange_def onNodeDragStop_def handleUndo_def
      saveCurrentState_def deep_copy_def Let_def)

section \<open>Node ids from the clock\<close>

lemma digit_char_inj:
  assumes "a < 10" "b < 10" "digit_char a = digit_char b"
  shows "a = b"
proof -
  have d: "distinct ''0123456789''" by simp
  have l: "length ''0123456789'' = 10" by simp
  from assms show ?thesis
    unfolding digit_char_def using nth_eq_iff_index_eq [OF d, of a b] l by simp
qed

lemma string_of_nat_small: "n < 10 \<Longrightarrow> string_of_nat n = [digit_char n]"
  by (simp add: string_of_nat.simps)

lemma string_of_nat_big:
  "\<not> n < 10 \<Longrightarrow> string_of_nat n = string_of_nat (n div 10) @ [digit_char (n mod 10)]"
  by (subst string_of_nat.simps) simp

lemma string_of_nat_nonempty: "string_of_nat n \<noteq> []"
  by (cases "n < 10") (simp_all add: string_of_nat_small string_of_nat_big)

lemma string_of_nat_inj: "string_of_nat n = string_of_nat m \<Longrightarrow> n = m"
proof (induction n arbitrary: m rule: less_induct)
  case (less n)
  show ?case
  proof (cases "n < 10")
    case n_small: True
    show ?thesis
    proof (cases "m < 10")
      case True
      with n_small less.prems show ?thesis
        by (simp add: string_of_nat_small digit_char_inj)
    next
      case False
      with n_small less.prems string_of_nat_nonempty [of "m div 10"] show ?thesis
        by (simp add: string_of_nat_small string_of_nat_big)
    qed
  next
    case n_big: False
    show ?thesis
    proof (cases "m < 10")
      case True
      with n_big less.prems string_of_nat_nonempty [of "n div 10"] show ?thesis
        by (simp add: string_of_nat_small string_of_nat_big)
    next
      case False
      with n_big less.prems
      have eq: "string_of_nat (n div 10) = string_of_nat (m div 10)"
        and dg: "digit_char (n mod 10) = digit_char (m mod 10)"
        by (simp_all add: string_of_nat_big)
      from n_big have "n div 10 < n" by simp
      then have "n div 10 = m div 10" using eq by (rule less.IH)
      moreover have "n mod 10 = m mod 10"
        by (rule digit_char_inj [OF _ _ dg]) simp_all
      ultimately show ?thesis by (metis div_mult_mod_eq)
    qed
  qed
qed

lemma created_ids:
  "map node_id (nodes (fold (\<lambda>c. handleCreateNode (fst c) (snd c)) cs s))
     = map node_id (nodes s) @ map (\<lambda>c. ''node-'' @ string_of_nat (snd c)) cs"
  by (induction cs arbitrary: s) (simp_all add: handleCreateNode_nodes)

lemma distinct_created:
  "distinct (map (\<lambda>c. ''node-'' @ string_of_nat (snd c)) cs) = distinct (map snd cs)"
proof -
  let ?f = "\<lambda>t. ''node-'' @ string_of_nat t"
  have "inj_on ?f (set (map snd cs))"
    by (rule inj_onI) (simp add: string_of_nat_inj)
  then have "distinct (map ?f (map snd cs)) = distinct (map snd cs)"
    using distinct_map [of ?f "map snd cs"] by blast
  moreover have "map ?f (map snd cs) = map (\<lambda>c. ''node-'' @ string_of_nat (snd c)) cs"
    by (induction cs) simp_all
  ultimately show ?thesis by metis
qed

text \<open>
  Claim C10. The id of a created node is \<open>node-\<close> followed by the decimal clock reading.
  After a series of creations the node ids are pairwise different exactly when the ids
  before were, the clock readings are pairwise different and none of the new ids was
  already in use; two creations at the same clock reading always leave two nodes with
  the same id.
\<close>

theorem node_ids_from_clock:
  "map node_id (nodes (fold (\<lambda>c. handleCreateNode (fst c) (snd c)) cs s))
     = map node_id (nodes s) @ map (\<lambda>c. ''node-'' @ string_of_nat (snd c)) cs
   \<and> (distinct (map node_id (nodes (fold (\<lambda>c. handleCreateNode (fst c) (snd c)) cs s)))
        \<longleftrightarrow> distinct (map node_id (nodes s)) \<and> distinct (map snd cs)
            \<and> (\<forall>c \<in> set cs. ''node-'' @ string_of_nat (snd c) \<notin> set (map node_id (nodes s))))
   \<and> \<not> distinct (map node_id (nodes (handleCreateNode d2 t (handleCreateNode d1 t s))))"
proof (intro conjI)
  show "map node_id (nodes (fold (\<lambda>c. handleCreateNode (fst c) (snd c)) cs s))
     = map node_id (nodes s) @ map (\<lambda>c. ''node-'' @ string_of_nat (snd c)) cs"
    by (rule created_ids)
  show "distinct (map node_id (nodes (fold (\<lambda>c. handleCreateNode (fst c) (snd c)) cs s)))
        \<longleftrightarrow> distinct (map node_id (nodes s)) \<and> distinct (map snd cs)
            \<and> (\<forall>c \<in> set cs. ''node-'' @ string_of_nat (snd c) \<notin> set (map node_id (nodes s)))"
    unfolding created_ids distinct_append distinct_created by force
  show "\<not> distinct (map node_id (nodes (handleCreateNode d2 t (handleCreateNode d1 t s))))"
    by (simp add: handleCreateNode_nodes)
qed

text \<open>Creations at readings 41 and 142 give different ids; two creations at 41 give
  \<open>node-41\<close> twice.\<close>

theorem node_ids_from_clock_witness:
  "map node_id (nodes (fold (\<lambda>c. handleCreateNode (fst c) (snd c))
       [(column_payload ''n1'' ''A'', 41), (column_payload ''n2'' ''A'', 142)] column_A_session))
     = [''header-A'', ''node-41'', ''node-142'']
   \<and> distinct (map node_id (nodes (fold (\<lambda>c. handleCreateNode (fst c) (snd c))
       [(column_payload ''n1'' ''A'', 41), (column_payload ''n2'' ''A'', 142)] column_A_session)))
   \<and> map node_id (nodes (handleCreateNode (column_payload ''n2'' ''A'') 41
        (handleCreateNode (column_payload ''n1'' ''A'') 41 column_A_session)))
     = [''header-A'', ''node-41'', ''node-41'']
   \<and> \<not> distinct (map node_id (nodes (handleCreateNode (column_payload ''n2'' ''A'') 41
        (handleCreateNode (column_payload ''n1'' ''A'') 41 column_A_session))))"
proof -
  have ids: "map node_id (nodes column_A_session) = [''header-A'']"
    by (simp add: example_defs addColumn_def saveCurrentState_def Let_def)
  have s41: "string_of_nat 41 = ''41''" and s142: "string_of_nat 142 = ''142''"
    by (simp_all add: string_of_nat.simps digit_char_def)
  from node_ids_from_clock [of "[(column_payload ''n1'' ''A'', 41), (column_payload ''n2'' ''A'', 142)]"
      column_A_session "column_payload ''n2'' ''A''" 41 "column_payload ''n1'' ''A''"]
  show ?thesis
    by (simp add: handleCreateNode_nodes ids s41 s142)
qed

end
